theory Spec2Isabelle
  imports Main
begin

section \<open>The backend client as the accessors see it\<close>

text \<open>
  The accessors of \<^verbatim>\<open>cruds.go\<close> (package \<^verbatim>\<open>cruds\<close>, the plain variant) and of the
  package \<^verbatim>\<open>dao\<close> (the rich, timestamped variant) are stateless translators in front of
  the Firestore client. The client is an external collaborator: it is modelled by the
  answers it gives, as functions of an abstract backend state \<open>'s\<close>, and the accessors are
  modelled over every such client.
\<close>

text \<open>The gRPC status codes, \<^verbatim>\<open>google.golang.org/grpc/codes\<close>.\<close>

datatype codes =
  OK | Canceled | Unknown | InvalidArgument | DeadlineExceeded | NotFound | AlreadyExists
  | PermissionDenied | ResourceExhausted | FailedPrecondition | Aborted | OutOfRange
  | Unimplemented | Internal | Unavailable | DataLoss | Unauthenticated

text \<open>
  An error value produced by the client library. The accessors observe two things of it:
  \<^verbatim>\<open>status.Code(err)\<close> and \<^verbatim>\<open>err.Error()\<close>.
\<close>

record backend_error =
  status_Code :: codes
  Error :: string

text \<open>
  The sentinels of \<^verbatim>\<open>ehandler\<close> that \<^verbatim>\<open>e.Wrap(cause, sentinel)\<close> attaches a cause to.
\<close>

datatype kind = ErrNotFound | ErrConflict | ErrCorrupt | ErrBadRequest

text \<open>
  The values of Go's \<^verbatim>\<open>error\<close> that an accessor returns: a client error handed on as it
  is, a sentinel made by \<^verbatim>\<open>errors.New\<close>, or a wrapped \<^verbatim>\<open>ehandler\<close> sentinel with its cause.
  \<open>None\<close> of \<open>error option\<close> is \<^verbatim>\<open>nil\<close>.
\<close>

datatype error = Backend backend_error | New string | Wrap string kind

definition ErrDocumentNotFound :: error where
  "ErrDocumentNotFound = New ''document not found''"

definition ErrDocumentAlreadyExists :: error where
  "ErrDocumentAlreadyExists = New ''document already exists''"

definition ErrDocumentSkipped :: error where
  "ErrDocumentSkipped = New ''document skipped because of error''"

definition ErrQueryNotSupported :: error where
  "ErrQueryNotSupported = New ''query not supported: combining (==) with (!=, <, <=, >, >=)''"

text \<open>The \<^verbatim>\<open>ehandler\<close> kind that an error wraps, if it wraps one.\<close>

fun kind_of :: "error \<Rightarrow> kind option" where
  "kind_of (Wrap cause k) = Some k"
| "kind_of (Backend b) = None"
| "kind_of (New s) = None"

text \<open>
  A value of Go's \<^verbatim>\<open>any\<close> in an update or a filter: a caller's value, or a \<^verbatim>\<open>time.Time\<close>
  (as a count of clock ticks).
\<close>

datatype 'v any = Val 'v | Time int

text \<open>\<^verbatim>\<open>firestore.Update{Path, Value}\<close>, and one \<^verbatim>\<open>Where(path, op, value)\<close> of a query.\<close>

datatype 'v Update = Update (upd_Path: string) (upd_Value: "'v any")

datatype 'v filter = Where string string "'v any"

text \<open>
  \<^verbatim>\<open>cruds.Query{Path, Operator, Value}\<close> of the plain variant and
  \<^verbatim>\<open>types.Query{Key, Operator, Value}\<close> of the rich one.
\<close>

datatype 'v Query = Query (Path: string) (Operator: string) (Value: "'v any")

datatype 'v t_Query = t_Query (Key: string) (t_Operator: string) (t_Value: "'v any")

text \<open>
  A \<^verbatim>\<open>*firestore.DocumentSnapshot\<close> that is not nil: its existence flag and the stored
  payload. A nil pointer is \<open>None\<close> of \<open>'raw snapshot option\<close>.
\<close>

record 'raw snapshot =
  Exists :: bool
  payload :: 'raw

text \<open>
  The client. Every call takes the backend state and returns the new one;
  \<^verbatim>\<open>time.Now()\<close> reads the clock of that state. \<open>DataTo\<close> is the deserialization of a
  snapshot into the Document shape: the error, or the document.
\<close>

record ('s, 'doc, 'v, 'raw) client =
  time_Now :: "'s \<Rightarrow> int"
  doc_Create :: "string \<Rightarrow> string \<Rightarrow> 'doc \<Rightarrow> 's \<Rightarrow> backend_error option \<times> 's"
  doc_Get :: "string \<Rightarrow> string \<Rightarrow> 's \<Rightarrow> ('raw snapshot option \<times> backend_error option) \<times> 's"
  doc_Update :: "string \<Rightarrow> string \<Rightarrow> 'v Update list \<Rightarrow> 's \<Rightarrow> backend_error option \<times> 's"
  doc_Delete :: "string \<Rightarrow> string \<Rightarrow> 's \<Rightarrow> backend_error option \<times> 's"
  query_GetAll :: "string \<Rightarrow> 'v filter list \<Rightarrow> 's \<Rightarrow> ('raw snapshot list \<times> backend_error option) \<times> 's"
  DataTo :: "'raw snapshot \<Rightarrow> backend_error + 'doc"

text \<open>The calls an accessor issues to the client, in order: its trace.\<close>

datatype ('doc, 'v) call =
  CallCreate string string 'doc
  | CallGet string string
  | CallUpdate string string "'v Update list"
  | CallDelete string string
  | CallGetAll string "'v filter list"

text \<open>
  A Go function either returns or panics (here: on dereferencing a nil snapshot).
\<close>

datatype 'a outcome = Panic | Return 'a

section \<open>The operator translator\<close>

text \<open>
  \<^verbatim>\<open>strings.ToUpper\<close>: a string of ASCII bytes only has its letters \<open>a\<close>..\<open>z\<close> shifted to
  \<open>A\<close>..\<open>Z\<close> (and is returned as it is when it has none); any other string goes through
  the Unicode tables, \<^verbatim>\<open>Map(unicode.ToUpper, s)\<close>, which are a parameter here.
\<close>

definition isASCII :: "string \<Rightarrow> bool" where
  "isASCII s = list_all (\<lambda>c. (of_char c :: nat) < 128) s"

definition isLower :: "char \<Rightarrow> bool" where
  "isLower c = (97 \<le> (of_char c :: nat) \<and> (of_char c :: nat) \<le> 122)"

definition hasLower :: "string \<Rightarrow> bool" where
  "hasLower s = list_ex isLower s"

definition upper_byte :: "char \<Rightarrow> char" where
  "upper_byte c = (if isLower c then char_of ((of_char c :: nat) - 32) else c)"

definition ToUpper :: "(string \<Rightarrow> string) \<Rightarrow> string \<Rightarrow> string" where
  "ToUpper unicode_Map s =
     (if isASCII s then (if \<not> hasLower s then s else map upper_byte s)
      else unicode_Map s)"

text \<open>\<^verbatim>\<open>fro\<close>, the Firestore relational operator of a token.\<close>

definition fro :: "(string \<Rightarrow> string) \<Rightarrow> string \<Rightarrow> string" where
  "fro unicode_Map input =
     (let u = ToUpper unicode_Map input in
      if u = ''EQ'' then ''==''
      else if u = ''NE'' then ''!=''
      else if u = ''LT'' then ''<''
      else if u = ''GT'' then ''>''
      else if u = ''LE'' then ''<=''
      else if u = ''GE'' then ''>=''
      else ''UNKNOWN'')"

section \<open>The plain accessor, \<^verbatim>\<open>cruds.CRUDS\<close>\<close>

text \<open>
  The struct: the client, the collection path, and the zero value of Document. Every
  method returns its result, the calls it issued to the client, and the backend state it
  leaves.
\<close>

record ('s, 'doc, 'v, 'raw) CRUDS =
  cruds_c :: "('s, 'doc, 'v, 'raw) client"
  cruds_path :: string
  cruds_empty :: 'doc

definition cruds_Create ::
  "('s, 'doc, 'v, 'raw) CRUDS \<Rightarrow> string \<Rightarrow> 'doc \<Rightarrow> 's
     \<Rightarrow> error option \<times> ('doc, 'v) call list \<times> 's" where
  "cruds_Create c docid document s =
     (case doc_Create (cruds_c c) (cruds_path c) docid document s of
        (err, s1) \<Rightarrow>
          (case err of
             Some e \<Rightarrow>
               if status_Code e = AlreadyExists
               then (Some ErrDocumentAlreadyExists, [CallCreate (cruds_path c) docid document], s1)
               else (Some (Backend e), [CallCreate (cruds_path c) docid document], s1)
           | None \<Rightarrow> (None, [CallCreate (cruds_path c) docid document], s1)))"

definition cruds_Read ::
  "('s, 'doc, 'v, 'raw) CRUDS \<Rightarrow> string \<Rightarrow> 's
     \<Rightarrow> ('doc \<times> error option) outcome \<times> ('doc, 'v) call list \<times> 's" where
  "cruds_Read c docid s =
     (case doc_Get (cruds_c c) (cruds_path c) docid s of
        ((snapshot, err), s1) \<Rightarrow>
          (case err of
             Some e \<Rightarrow>
               (case snapshot of
                  None \<Rightarrow> (Panic, [CallGet (cruds_path c) docid], s1)
                | Some sn \<Rightarrow>
                    if \<not> Exists sn
                    then (Return (cruds_empty c, Some ErrDocumentNotFound),
                          [CallGet (cruds_path c) docid], s1)
                    else (Return (cruds_empty c, Some (Backend e)),
                          [CallGet (cruds_path c) docid], s1))
           | None \<Rightarrow>
               (case snapshot of
                  None \<Rightarrow> (Panic, [CallGet (cruds_path c) docid], s1)
                | Some sn \<Rightarrow>
                    (case DataTo (cruds_c c) sn of
                       Inl e \<Rightarrow> (Return (cruds_empty c, Some (Backend e)),
                                 [CallGet (cruds_path c) docid], s1)
                     | Inr d \<Rightarrow> (Return (d, None), [CallGet (cruds_path c) docid], s1)))))"

definition cruds_Update ::
  "('s, 'doc, 'v, 'raw) CRUDS \<Rightarrow> string \<Rightarrow> 'v Update list \<Rightarrow> 's
     \<Rightarrow> error option \<times> ('doc, 'v) call list \<times> 's" where
  "cruds_Update c docid updates s =
     (case doc_Update (cruds_c c) (cruds_path c) docid updates s of
        (err, s1) \<Rightarrow>
          (case err of
             Some e \<Rightarrow> (Some (Backend e), [CallUpdate (cruds_path c) docid updates], s1)
           | None \<Rightarrow> (None, [CallUpdate (cruds_path c) docid updates], s1)))"

definition cruds_Delete ::
  "('s, 'doc, 'v, 'raw) CRUDS \<Rightarrow> string \<Rightarrow> 's
     \<Rightarrow> error option \<times> ('doc, 'v) call list \<times> 's" where
  "cruds_Delete c docid s =
     (case doc_Delete (cruds_c c) (cruds_path c) docid s of
        (err, s1) \<Rightarrow>
          (case err of
             Some e \<Rightarrow> (Some (Backend e), [CallDelete (cruds_path c) docid], s1)
           | None \<Rightarrow> (None, [CallDelete (cruds_path c) docid], s1)))"

text \<open>
  The query builder: \<^verbatim>\<open>collection.Where\<close> starts a query of one filter,
  \<^verbatim>\<open>fsq.Where\<close> adds one to a query. The zero \<^verbatim>\<open>firestore.Query\<close> has none.
\<close>

definition collection_Where :: "'v filter \<Rightarrow> 'v filter list" where
  "collection_Where f = [f]"

definition query_Where :: "'v filter list \<Rightarrow> 'v filter \<Rightarrow> 'v filter list" where
  "query_Where fsq f = fsq @ [f]"

text \<open>The loop \<^verbatim>\<open>for i, q := range queries\<close> of \<^verbatim>\<open>CRUDS.Search\<close>, from index \<open>i\<close>.\<close>

fun cruds_build :: "nat \<Rightarrow> 'v Query list \<Rightarrow> 'v filter list \<Rightarrow> 'v filter list" where
  "cruds_build i [] fsq = fsq"
| "cruds_build i (q # qs) fsq =
     cruds_build (Suc i) qs
       (if i = 0 then collection_Where (Where (Path q) (Operator q) (Value q))
        else query_Where fsq (Where (Path q) (Operator q) (Value q)))"

text \<open>
  The loop \<^verbatim>\<open>for _, s := range snapshots\<close> of \<^verbatim>\<open>CRUDS.Search\<close>, on the variables
  \<^verbatim>\<open>ds\<close> and \<^verbatim>\<open>err\<close>: each round assigns the result of \<^verbatim>\<open>DataTo\<close> to \<^verbatim>\<open>err\<close>.
\<close>

fun cruds_collect ::
  "('raw snapshot \<Rightarrow> backend_error + 'doc) \<Rightarrow> 'raw snapshot list \<Rightarrow> 'doc list
     \<Rightarrow> error option \<Rightarrow> 'doc list \<times> error option" where
  "cruds_collect dataTo [] ds err = (ds, err)"
| "cruds_collect dataTo (s # ss) ds err =
     (case dataTo s of
        Inl e \<Rightarrow> cruds_collect dataTo ss ds (Some ErrDocumentSkipped)
      | Inr d \<Rightarrow> cruds_collect dataTo ss (ds @ [d]) None)"

definition cruds_Search ::
  "('s, 'doc, 'v, 'raw) CRUDS \<Rightarrow> 'v Query list \<Rightarrow> 's
     \<Rightarrow> ('doc list \<times> error option) \<times> ('doc, 'v) call list \<times> 's" where
  "cruds_Search c queries s =
     (if length queries = 0 then
        (case query_GetAll (cruds_c c) (cruds_path c) [] s of
           ((snapshots, err), s1) \<Rightarrow>
             (case err of
                Some e \<Rightarrow> (([], Some (Backend e)), [CallGetAll (cruds_path c) []], s1)
              | None \<Rightarrow>
                  (cruds_collect (DataTo (cruds_c c)) snapshots [] None,
                   [CallGetAll (cruds_path c) []], s1)))
      else
        (case query_GetAll (cruds_c c) (cruds_path c) (cruds_build 0 queries []) s of
           ((snapshots, err), s1) \<Rightarrow>
             (case err of
                Some e \<Rightarrow>
                  if status_Code e = FailedPrecondition
                  then (([], Some ErrQueryNotSupported),
                        [CallGetAll (cruds_path c) (cruds_build 0 queries [])], s1)
                  else (([], Some (Backend e)),
                        [CallGetAll (cruds_path c) (cruds_build 0 queries [])], s1)
              | None \<Rightarrow>
                  (cruds_collect (DataTo (cruds_c c)) snapshots [] None,
                   [CallGetAll (cruds_path c) (cruds_build 0 queries [])], s1))))"

section \<open>The rich accessor, \<^verbatim>\<open>dao.DAO\<close>\<close>

text \<open>
  The struct: the client, the collection path, and the zero value of Document. The
  logger is an output: \<^verbatim>\<open>Search\<close> returns the entries it wrote, each the snapshot
  and the error logged with it.
\<close>

record ('s, 'doc, 'v, 'raw) DAO =
  dao_c :: "('s, 'doc, 'v, 'raw) client"
  dao_path :: string
  dao_empty :: 'doc

definition dao_Create ::
  "('s, 'doc, 'v, 'raw) DAO \<Rightarrow> string \<Rightarrow> 'doc \<Rightarrow> 's
     \<Rightarrow> error option \<times> ('doc, 'v) call list \<times> 's" where
  "dao_Create c docid document s =
     (let now = time_Now (dao_c c) s in
      case doc_Create (dao_c c) (dao_path c) docid document s of
        (err, s1) \<Rightarrow>
          (case err of
             Some e \<Rightarrow>
               if status_Code e = AlreadyExists
               then (Some (Wrap (''(document '' @ [CHR 0x27] @ docid @ [CHR 0x27] @ '' already exists)'')
                             ErrConflict),
                     [CallCreate (dao_path c) docid document], s1)
               else (Some (Backend e), [CallCreate (dao_path c) docid document], s1)
           | None \<Rightarrow>
               (let fus = [Update ''created'' (Time now), Update ''updated'' (Time now)] in
                case doc_Update (dao_c c) (dao_path c) docid fus s1 of
                  (err2, s2) \<Rightarrow>
                    (case err2 of
                       Some e2 \<Rightarrow>
                         (Some (Backend e2),
                          [CallCreate (dao_path c) docid document,
                           CallUpdate (dao_path c) docid fus], s2)
                     | None \<Rightarrow>
                         (None,
                          [CallCreate (dao_path c) docid document,
                           CallUpdate (dao_path c) docid fus], s2)))))"

definition dao_Read ::
  "('s, 'doc, 'v, 'raw) DAO \<Rightarrow> string \<Rightarrow> 's
     \<Rightarrow> ('doc \<times> error option) outcome \<times> ('doc, 'v) call list \<times> 's" where
  "dao_Read c docid s =
     (case doc_Get (dao_c c) (dao_path c) docid s of
        ((snapshot, err), s1) \<Rightarrow>
          (case err of
             Some e \<Rightarrow>
               (case snapshot of
                  None \<Rightarrow> (Panic, [CallGet (dao_path c) docid], s1)
                | Some sn \<Rightarrow>
                    if \<not> Exists sn
                    then (Return (dao_empty c, Some (Wrap (''(ID: '' @ docid @ '')'') ErrNotFound)),
                          [CallGet (dao_path c) docid], s1)
                    else (Return (dao_empty c, Some (Backend e)),
                          [CallGet (dao_path c) docid], s1))
           | None \<Rightarrow>
               (case snapshot of
                  None \<Rightarrow> (Panic, [CallGet (dao_path c) docid], s1)
                | Some sn \<Rightarrow>
                    (case DataTo (dao_c c) sn of
                       Inl e \<Rightarrow>
                         (Return (dao_empty c,
                            Some (Wrap (''(firestore serialization failed: '' @ Error e @ '')'')
                                    ErrCorrupt)),
                          [CallGet (dao_path c) docid], s1)
                     | Inr d \<Rightarrow> (Return (d, None), [CallGet (dao_path c) docid], s1)))))"

text \<open>
  \<^verbatim>\<open>fromUpdate\<close> ranges over the map \<^verbatim>\<open>types.Update\<close>. The argument is the map as the
  runtime enumerates it: its entries in the order of the iteration, every key once.
\<close>

fun fromUpdate :: "(string \<times> 'v any) list \<Rightarrow> 'v Update list \<Rightarrow> 'v Update list" where
  "fromUpdate [] fus = fus"
| "fromUpdate ((k, v) # input) fus = fromUpdate input (fus @ [Update k v])"

definition dao_Update ::
  "('s, 'doc, 'v, 'raw) DAO \<Rightarrow> string \<Rightarrow> (string \<times> 'v any) list \<Rightarrow> 's
     \<Rightarrow> error option \<times> ('doc, 'v) call list \<times> 's" where
  "dao_Update c docid update s =
     (let fus = fromUpdate update [] @ [Update ''updated'' (Time (time_Now (dao_c c) s))] in
      case doc_Update (dao_c c) (dao_path c) docid fus s of
        (err, s1) \<Rightarrow>
          (case err of
             Some e \<Rightarrow> (Some (Backend e), [CallUpdate (dao_path c) docid fus], s1)
           | None \<Rightarrow> (None, [CallUpdate (dao_path c) docid fus], s1)))"

definition dao_Delete ::
  "('s, 'doc, 'v, 'raw) DAO \<Rightarrow> string \<Rightarrow> 's
     \<Rightarrow> error option \<times> ('doc, 'v) call list \<times> 's" where
  "dao_Delete c docid s =
     (case doc_Delete (dao_c c) (dao_path c) docid s of
        (err, s1) \<Rightarrow>
          (case err of
             Some e \<Rightarrow> (Some (Backend e), [CallDelete (dao_path c) docid], s1)
           | None \<Rightarrow> (None, [CallDelete (dao_path c) docid], s1)))"

text \<open>The loop \<^verbatim>\<open>for i, q := range queries\<close> of \<^verbatim>\<open>DAO.Search\<close>, from index \<open>i\<close>.\<close>

fun dao_build ::
  "(string \<Rightarrow> string) \<Rightarrow> nat \<Rightarrow> 'v t_Query list \<Rightarrow> 'v filter list \<Rightarrow> 'v filter list" where
  "dao_build um i [] fsq = fsq"
| "dao_build um i (q # qs) fsq =
     (let op = fro um (t_Operator q) in
      dao_build um (Suc i) qs
        (if i = 0 then collection_Where (Where (Key q) op (t_Value q))
         else query_Where fsq (Where (Key q) op (t_Value q))))"

text \<open>
  The loop \<^verbatim>\<open>for _, s := range snapshots\<close> of \<^verbatim>\<open>DAO.Search\<close>, on \<^verbatim>\<open>ds\<close> and the
  entries logged so far.
\<close>

fun dao_collect ::
  "('raw snapshot \<Rightarrow> backend_error + 'doc) \<Rightarrow> 'raw snapshot list \<Rightarrow> 'doc list
     \<Rightarrow> ('raw snapshot \<times> error) list \<Rightarrow> 'doc list \<times> ('raw snapshot \<times> error) list" where
  "dao_collect dataTo [] ds lg = (ds, lg)"
| "dao_collect dataTo (s # ss) ds lg =
     (case dataTo s of
        Inl e \<Rightarrow>
          dao_collect dataTo ss ds
            (lg @ [(s, Wrap (''(firestore serialization failed: '' @ Error e @ '')'') ErrCorrupt)])
      | Inr d \<Rightarrow> dao_collect dataTo ss (ds @ [d]) lg)"

text \<open>
  \<^verbatim>\<open>DAO.Search\<close> returns the documents and the error, the entries it logged, the calls
  it issued, and the backend state.
\<close>

definition dao_Search ::
  "(string \<Rightarrow> string) \<Rightarrow> ('s, 'doc, 'v, 'raw) DAO \<Rightarrow> 'v t_Query list \<Rightarrow> 's
     \<Rightarrow> ('doc list \<times> error option) \<times> ('raw snapshot \<times> error) list
        \<times> ('doc, 'v) call list \<times> 's" where
  "dao_Search um c queries s =
     (if length queries = 0 then
        (case query_GetAll (dao_c c) (dao_path c) [] s of
           ((snapshots, err), s1) \<Rightarrow>
             (case err of
                Some e \<Rightarrow> (([], Some (Backend e)), [], [CallGetAll (dao_path c) []], s1)
              | None \<Rightarrow>
                  (case dao_collect (DataTo (dao_c c)) snapshots [] [] of
                     (ds, lg) \<Rightarrow> ((ds, None), lg, [CallGetAll (dao_path c) []], s1))))
      else
        (case query_GetAll (dao_c c) (dao_path c) (dao_build um 0 queries []) s of
           ((snapshots, err), s1) \<Rightarrow>
             (case err of
                Some e \<Rightarrow>
                  if status_Code e = FailedPrecondition
                  then (([], Some (Wrap
                           (''(query not supported: combining '' @ [CHR 0x27] @ ''=='' @ [CHR 0x27]
                              @ '' with '' @ [CHR 0x27] @ ''!= <, <=, >, >='' @ [CHR 0x27] @ '')'')
                           ErrBadRequest)),
                        [], [CallGetAll (dao_path c) (dao_build um 0 queries [])], s1)
                  else (([], Some (Backend e)),
                        [], [CallGetAll (dao_path c) (dao_build um 0 queries [])], s1)
              | None \<Rightarrow>
                  (case dao_collect (DataTo (dao_c c)) snapshots [] [] of
                     (ds, lg) \<Rightarrow>
                       ((ds, None), lg,
                        [CallGetAll (dao_path c) (dao_build um 0 queries [])], s1)))))"

section \<open>The specification's operator table\<close>

text \<open>
  The translation as the specification words it: the six tokens and the native operator
  of each, in the backend's literal syntax; and the spellings of a token in any letter
  case.
\<close>

definition operator_table :: "(string \<times> string) list" where
  "operator_table =
     [(''EQ'', ''==''), (''NE'', ''!=''), (''LT'', ''<''), (''GT'', ''>''),
      (''LE'', ''<=''), (''GE'', ''>='')]"

definition lower_byte :: "char \<Rightarrow> char" where
  "lower_byte c =
     (if 65 \<le> (of_char c :: nat) \<and> (of_char c :: nat) \<le> 90
      then char_of ((of_char c :: nat) + 32) else c)"

fun case_variants :: "string \<Rightarrow> string list" where
  "case_variants [] = [[]]"
| "case_variants (c # cs) =
     map ((#) c) (case_variants cs) @ map ((#) (lower_byte c)) (case_variants cs)"

section \<open>Concrete clients\<close>

text \<open>
  A scripted client, for running the accessors on concrete inputs: it answers every
  create, get, update and query with the given results, and each call advances the
  clock, which is its state, by one tick. Documents and payloads are strings; the
  payload \<open>''corrupt''\<close> does not deserialize.
\<close>

definition decode :: "string snapshot \<Rightarrow> backend_error + string" where
  "decode sn =
     (if \<not> Exists sn then Inl \<lparr>status_Code = NotFound, Error = ''document does not exist''\<rparr>
      else if payload sn = ''corrupt'' then Inl \<lparr>status_Code = Unknown, Error = ''cannot decode''\<rparr>
      else Inr (payload sn))"

definition scripted ::
  "backend_error option \<Rightarrow> string snapshot option \<times> backend_error option
     \<Rightarrow> backend_error option \<Rightarrow> string snapshot list \<times> backend_error option
     \<Rightarrow> (int, string, nat, string) client" where
  "scripted cr gt up ga =
     \<lparr>time_Now = (\<lambda>s. s),
      doc_Create = (\<lambda>p i d s. (cr, s + 1)),
      doc_Get = (\<lambda>p i s. (gt, s + 1)),
      doc_Update = (\<lambda>p i u s. (up, s + 1)),
      doc_Delete = (\<lambda>p i s. (None, s + 1)),
      query_GetAll = (\<lambda>p f s. (ga, s + 1)),
      DataTo = decode\<rparr>"

definition plain :: "(int, string, nat, string) client \<Rightarrow> (int, string, nat, string) CRUDS" where
  "plain cl = \<lparr>cruds_c = cl, cruds_path = ''users'', cruds_empty = ''''\<rparr>"

definition rich :: "(int, string, nat, string) client \<Rightarrow> (int, string, nat, string) DAO" where
  "rich cl = \<lparr>dao_c = cl, dao_path = ''users'', dao_empty = ''''\<rparr>"

definition stored :: "string \<Rightarrow> string snapshot" where
  "stored r = \<lparr>Exists = True, payload = r\<rparr>"

definition missing :: "string snapshot" where
  "missing = \<lparr>Exists = False, payload = ''''\<rparr>"

definition failure :: "codes \<Rightarrow> backend_error" where
  "failure k = \<lparr>status_Code = k, Error = ''rpc error''\<rparr>"

text \<open>
  A client that keeps documents: the backend state is the clock and the stored
  documents, by collection path and key. A document is its list of fields. Create is
  create-if-absent, an update sets each named field of an existing document (adding
  it, or overwriting its value), a get reports a missing key by a snapshot that does
  not exist together with a NotFound error, and each call advances the clock by one
  tick. Field paths are taken flat, and queries are not implemented.
\<close>

record 'v store_state =
  st_clock :: int
  st_docs :: "string \<times> string \<Rightarrow> (string \<times> 'v any) list option"

fun set_field :: "string \<Rightarrow> 'v any \<Rightarrow> (string \<times> 'v any) list \<Rightarrow> (string \<times> 'v any) list" where
  "set_field k v [] = [(k, v)]"
| "set_field k v ((k', v') # fs) =
     (if k' = k then (k, v) # fs else (k', v') # set_field k v fs)"

fun apply_updates :: "'v Update list \<Rightarrow> (string \<times> 'v any) list \<Rightarrow> (string \<times> 'v any) list" where
  "apply_updates [] fs = fs"
| "apply_updates (u # us) fs = apply_updates us (set_field (upd_Path u) (upd_Value u) fs)"

definition tick :: "'v store_state \<Rightarrow> 'v store_state" where
  "tick s = s\<lparr>st_clock := st_clock s + 1\<rparr>"

definition store ::
  "('v store_state, (string \<times> 'v any) list, 'v, (string \<times> 'v any) list) client" where
  "store =
     \<lparr>time_Now = st_clock,
      doc_Create = (\<lambda>p i d s.
        case st_docs s (p, i) of
          Some x \<Rightarrow> (Some \<lparr>status_Code = AlreadyExists, Error = ''already exists''\<rparr>, tick s)
        | None \<Rightarrow> (None, tick (s\<lparr>st_docs := (st_docs s)((p, i) \<mapsto> d)\<rparr>))),
      doc_Get = (\<lambda>p i s.
        case st_docs s (p, i) of
          Some x \<Rightarrow> ((Some \<lparr>Exists = True, payload = x\<rparr>, None), tick s)
        | None \<Rightarrow>
            ((Some \<lparr>Exists = False, payload = []\<rparr>,
              Some \<lparr>status_Code = NotFound, Error = ''not found''\<rparr>), tick s)),
      doc_Update = (\<lambda>p i us s.
        case st_docs s (p, i) of
          Some x \<Rightarrow> (None, tick (s\<lparr>st_docs := (st_docs s)((p, i) \<mapsto> apply_updates us x)\<rparr>))
        | None \<Rightarrow> (Some \<lparr>status_Code = NotFound, Error = ''not found''\<rparr>, tick s)),
      doc_Delete = (\<lambda>p i s. (None, tick (s\<lparr>st_docs := (st_docs s)((p, i) := None)\<rparr>))),
      query_GetAll = (\<lambda>p f s.
        (([], Some \<lparr>status_Code = Unimplemented, Error = ''queries are not implemented''\<rparr>),
         tick s)),
      DataTo = (\<lambda>sn.
        if Exists sn then Inr (payload sn)
        else Inl \<lparr>status_Code = NotFound, Error = ''document does not exist''\<rparr>)\<rparr>"

definition plain_on ::
  "string \<Rightarrow> ('v store_state, (string \<times> 'v any) list, 'v, (string \<times> 'v any) list) CRUDS" where
  "plain_on p = \<lparr>cruds_c = store, cruds_path = p, cruds_empty = []\<rparr>"

definition rich_on ::
  "string \<Rightarrow> ('v store_state, (string \<times> 'v any) list, 'v, (string \<times> 'v any) list) DAO" where
  "rich_on p = \<lparr>dao_c = store, dao_path = p, dao_empty = []\<rparr>"

definition empty_store :: "int \<Rightarrow> 'v store_state" where
  "empty_store n = \<lparr>st_clock = n, st_docs = (\<lambda>k. None)\<rparr>"

lemmas fixture_defs =
  scripted_def plain_def rich_def stored_def missing_def failure_def decode_def

lemmas store_defs = store_def plain_on_def rich_on_def tick_def empty_store_def

section \<open>The loops in closed form\<close>

lemma cruds_build_eq:
  "cruds_build i qs fsq =
     (if qs = [] then fsq
      else (if i = 0 then [] else fsq) @ map (\<lambda>q. Where (Path q) (Operator q) (Value q)) qs)"
  by (induction qs arbitrary: i fsq) (auto simp: collection_Where_def query_Where_def)

lemma dao_build_eq:
  "dao_build um i qs fsq =
     (if qs = [] then fsq
      else (if i = 0 then [] else fsq)
           @ map (\<lambda>q. Where (Key q) (fro um (t_Operator q)) (t_Value q)) qs)"
  by (induction qs arbitrary: i fsq) (auto simp: collection_Where_def query_Where_def Let_def)

lemma fromUpdate_eq: "fromUpdate input fus = fus @ map (\<lambda>(k, v). Update k v) input"
  by (induction input arbitrary: fus) auto

lemma cruds_collect_docs:
  "fst (cruds_collect dt ss ds err) =
     ds @ concat (map (\<lambda>s. case dt s of Inl e \<Rightarrow> [] | Inr d \<Rightarrow> [d]) ss)"
  by (induction ss arbitrary: ds err) (auto split: sum.splits)

lemma cruds_collect_err:
  "snd (cruds_collect dt ss ds err) =
     (if ss = [] then err else if isl (dt (last ss)) then Some ErrDocumentSkipped else None)"
  by (induction ss arbitrary: ds err) (auto split: sum.splits)

lemma dao_collect_docs:
  "fst (dao_collect dt ss ds lg) =
     ds @ concat (map (\<lambda>s. case dt s of Inl e \<Rightarrow> [] | Inr d \<Rightarrow> [d]) ss)"
  by (induction ss arbitrary: ds lg) (auto split: sum.splits)

lemma dao_collect_log:
  "snd (dao_collect dt ss ds lg) =
     lg @ concat (map (\<lambda>s. case dt s of
                    Inl e \<Rightarrow> [(s, Wrap (''(firestore serialization failed: '' @ Error e @ '')'')
                                     ErrCorrupt)]
                  | Inr d \<Rightarrow> []) ss)"
  by (induction ss arbitrary: ds lg) (auto split: sum.splits)

lemma valid_docs:
  "\<forall>x \<in> set xs. \<not> isl (dt x) \<Longrightarrow>
     concat (map (\<lambda>s. case dt s of Inl e \<Rightarrow> [] | Inr d \<Rightarrow> [d]) xs) = map (\<lambda>x. projr (dt x)) xs"
  by (induction xs) (auto split: sum.splits)

lemma valid_no_log:
  "\<forall>x \<in> set xs. \<not> isl (dt x) \<Longrightarrow>
     concat (map (\<lambda>s. case dt s of Inl e \<Rightarrow> [f s e] | Inr d \<Rightarrow> []) xs) = []"
  by (induction xs) (auto split: sum.splits)

text \<open>
  One snapshot that does not deserialize among snapshots that do, anywhere in the
  backend's order. The rich variant returns the documents of the others, with no error,
  and logs one entry, for the corrupt snapshot.
\<close>

lemma dao_Search_one_corrupt:
  assumes "query_GetAll (dao_c d) (dao_path d) [] s = ((pre @ [bad] @ post, None), s1)"
    and "\<forall>x \<in> set (pre @ post). \<not> isl (DataTo (dao_c d) x)"
    and "DataTo (dao_c d) bad = Inl e"
  shows "fst (dao_Search um d [] s) = (map (\<lambda>x. projr (DataTo (dao_c d) x)) (pre @ post), None)
    \<and> fst (snd (dao_Search um d [] s)) =
           [(bad, Wrap (''(firestore serialization failed: '' @ Error e @ '')'') ErrCorrupt)]"
proof -
  obtain ds lg where c: "dao_collect (DataTo (dao_c d)) (pre @ [bad] @ post) [] [] = (ds, lg)"
    by (cases "dao_collect (DataTo (dao_c d)) (pre @ [bad] @ post) [] []") 
  have pp: "\<forall>x \<in> set pre. \<not> isl (DataTo (dao_c d) x)" "\<forall>x \<in> set post. \<not> isl (DataTo (dao_c d) x)"
    using assms(2) by auto
  have "ds = map (\<lambda>x. projr (DataTo (dao_c d) x)) (pre @ post)"
    using dao_collect_docs[of "DataTo (dao_c d)" "pre @ [bad] @ post" "[]" "[]"] c assms(3)
    by (simp add: valid_docs[OF pp(1)] valid_docs[OF pp(2)])
  moreover have "lg = [(bad, Wrap (''(firestore serialization failed: '' @ Error e @ '')'') ErrCorrupt)]"
    using dao_collect_log[of "DataTo (dao_c d)" "pre @ [bad] @ post" "[]" "[]"] c assms(3)
    by (simp add: valid_no_log[OF pp(1)] valid_no_log[OF pp(2)])
  ultimately show ?thesis
    using assms(1) c by (simp add: dao_Search_def)
qed

text \<open>
  The plain variant returns the same documents; its only notice is the error it returns,
  and that is \<open>ErrDocumentSkipped\<close> only when the corrupt snapshot comes last.
\<close>

lemma cruds_Search_one_corrupt:
  assumes "query_GetAll (cruds_c c) (cruds_path c) [] s = ((pre @ [bad] @ post, None), s1)"
    and "\<forall>x \<in> set (pre @ post). \<not> isl (DataTo (cruds_c c) x)"
    and "DataTo (cruds_c c) bad = Inl e"
  shows "fst (cruds_Search c [] s) =
           (map (\<lambda>x. projr (DataTo (cruds_c c) x)) (pre @ post),
            if post = [] then Some ErrDocumentSkipped else None)"
proof -
  have pp: "\<forall>x \<in> set pre. \<not> isl (DataTo (cruds_c c) x)" "\<forall>x \<in> set post. \<not> isl (DataTo (cruds_c c) x)"
    using assms(2) by auto
  have run: "fst (cruds_Search c [] s)
      = cruds_collect (DataTo (cruds_c c)) (pre @ [bad] @ post) [] None"
    using assms(1) by (simp add: cruds_Search_def)
  have docs: "fst (cruds_collect (DataTo (cruds_c c)) (pre @ [bad] @ post) [] None)
      = map (\<lambda>x. projr (DataTo (cruds_c c) x)) (pre @ post)"
    using assms(3) by (simp add: cruds_collect_docs valid_docs[OF pp(1)] valid_docs[OF pp(2)])
  have err: "snd (cruds_collect (DataTo (cruds_c c)) (pre @ [bad] @ post) [] None)
      = (if post = [] then Some ErrDocumentSkipped else None)"
    using assms(3) pp(2) by (simp add: cruds_collect_err)
  show ?thesis
    unfolding run using docs err by (simp only: prod_eq_iff fst_conv snd_conv simp_thms)
qed

section \<open>The claims\<close>

subsection \<open>Search over a corrupt snapshot\<close>

text \<open>
  Claim C1: a Search whose backend query succeeds with one corrupt snapshot and N valid
  ones returns the N documents, records exactly one Skipped notice, and does not fail,
  in both variants and wherever the corrupt snapshot stands. The rich variant does so
  (\<open>dao_Search_one_corrupt\<close>). The plain variant does not: with the corrupt snapshot
  first and a valid one after it, \<^verbatim>\<open>CRUDS.Search\<close> returns the valid document and a
  nil error, so no notice at all is recorded; the next round's \<^verbatim>\<open>DataTo\<close> overwrote
  \<^verbatim>\<open>err\<close>. Only with the corrupt snapshot last does the notice survive.
\<close>

theorem cruds_Search_skipped_notice_lost:
  "fst (cruds_Search
          (plain (scripted None (None, None) None ([stored ''corrupt'', stored ''alice''], None)))
          [] 0)
     = ([''alice''], None)
   \<and> fst (cruds_Search
          (plain (scripted None (None, None) None ([stored ''alice'', stored ''corrupt''], None)))
          [] 0)
     = ([''alice''], Some ErrDocumentSkipped)"
  by (simp add: cruds_Search_def fixture_defs)

subsection \<open>The operator translator and the queries built with it\<close>

lemma ToUpper_ascii: "isASCII input \<Longrightarrow> ToUpper um input = map upper_byte input"
  unfolding ToUpper_def hasLower_def upper_byte_def
  by (auto simp: list_ex_iff intro: map_idI[symmetric])

lemma fro_table:
  "fro um input =
     (case map_of operator_table (ToUpper um input) of Some op \<Rightarrow> op | None \<Rightarrow> ''UNKNOWN'')"
  by (simp add: fro_def operator_table_def Let_def)

lemma fro_case_variants:
  "list_all (\<lambda>(tok, op). list_all (\<lambda>inp. fro um inp = op) (case_variants tok)) operator_table"
  by code_simp

lemma cruds_Search_calls:
  "fst (snd (cruds_Search c cq s)) =
     [CallGetAll (cruds_path c) (map (\<lambda>q. Where (Path q) (Operator q) (Value q)) cq)]"
  by (simp add: cruds_Search_def cruds_build_eq split: prod.splits option.splits)

lemma dao_Search_calls:
  "fst (snd (snd (dao_Search um d queries s))) =
     [CallGetAll (dao_path d)
        (map (\<lambda>q. Where (Key q) (fro um (t_Operator q)) (t_Value q)) queries)]"
  by (simp add: dao_Search_def dao_build_eq split: prod.splits option.splits)

text \<open>
  Claim C2, as amended: an input whose upper-cased form is one of EQ, NE, LT, GT, LE,
  GE, in any letter case, is translated to the native operator \<open>==\<close>, \<open>!=\<close>, \<open><\<close>,
  \<open>>\<close>, \<open><=\<close>, \<open>>=\<close> of the table, and every other input to the sentinel
  \<open>UNKNOWN\<close>; no input makes the translation fail. In the rich variant the query
  handed to the backend carries, for each predicate in order, the translation of its
  operator. The plain variant has no translator: its query carries each predicate's
  operator as the caller gave it.
\<close>

theorem fro_translation:
  "fro um input =
     (case map_of operator_table (ToUpper um input) of Some op \<Rightarrow> op | None \<Rightarrow> ''UNKNOWN'')
   \<and> (isASCII input \<longrightarrow> ToUpper um input = map upper_byte input)
   \<and> list_all (\<lambda>(tok, op). list_all (\<lambda>inp. fro um inp = op) (case_variants tok)) operator_table
   \<and> fst (snd (snd (dao_Search um d queries s))) =
       [CallGetAll (dao_path d)
          (map (\<lambda>q. Where (Key q) (fro um (t_Operator q)) (t_Value q)) queries)]
   \<and> fst (snd (cruds_Search c cq s')) =
       [CallGetAll (cruds_path c) (map (\<lambda>q. Where (Path q) (Operator q) (Value q)) cq)]"
  using fro_table[of um input] ToUpper_ascii[of input um] fro_case_variants[of um]
    dao_Search_calls[of um d queries s] cruds_Search_calls[of c cq s']
  by blast

theorem fro_translation_witness:
  "isASCII ''ge''
   \<and> ToUpper (\<lambda>x. x) ''ge'' = ''GE''
   \<and> fro (\<lambda>x. x) ''ge'' = ''>=''
   \<and> fst (snd (snd (dao_Search (\<lambda>x. x) (rich (scripted None (None, None) None ([], None)))
        [t_Query ''age'' ''ge'' (Val 30), t_Query ''name'' ''like'' (Val 1)] 0)))
      = [CallGetAll ''users'' [Where ''age'' ''>='' (Val 30), Where ''name'' ''UNKNOWN'' (Val 1)]]
   \<and> fst (snd (cruds_Search (plain (scripted None (None, None) None ([], None)))
        [Query ''age'' ''ge'' (Val 30)] 0))
      = [CallGetAll ''users'' [Where ''age'' ''ge'' (Val 30)]]"
proof -
  have a: "isASCII ''ge''"
    by code_simp
  have u: "map upper_byte ''ge'' = ''GE''"
    by code_simp
  have f: "fro (\<lambda>x. x) ''like'' = ''UNKNOWN''"
    by code_simp
  have p: "dao_path (rich (scripted None (None, None) None ([], None))) = ''users''"
    by (simp add: rich_def)
  note t = fro_translation[where um = "\<lambda>x. x" and input = "''ge''"
      and d = "rich (scripted None (None, None) None ([], None))"
      and queries = "[t_Query ''age'' ''ge'' (Val 30), t_Query ''name'' ''like'' (Val 1)]"
      and s = 0 and c = "plain (scripted None (None, None) None ([], None))"
      and cq = "[Query ''age'' ''ge'' (Val 30)]" and s' = 0]
  have q: "cruds_path (plain (scripted None (None, None) None ([], None))) = ''users''"
    by (simp add: plain_def)
  from t a u have up: "ToUpper (\<lambda>x. x) ''ge'' = ''GE''"
    by simp
  from t up have g: "fro (\<lambda>x. x) ''ge'' = ''>=''"
    by (simp add: operator_table_def)
  from t have "fst (snd (snd (dao_Search (\<lambda>x. x) (rich (scripted None (None, None) None ([], None)))
        [t_Query ''age'' ''ge'' (Val 30), t_Query ''name'' ''like'' (Val 1)] 0)))
      = [CallGetAll ''users'' [Where ''age'' (fro (\<lambda>x. x) ''ge'') (Val 30),
                               Where ''name'' (fro (\<lambda>x. x) ''like'') (Val 1)]]"
    by (simp add: p)
  moreover from t have "fst (snd (cruds_Search (plain (scripted None (None, None) None ([], None)))
        [Query ''age'' ''ge'' (Val 30)] 0))
      = [CallGetAll ''users'' [Where ''age'' ''ge'' (Val 30)]]"
    by (simp add: q)
  ultimately show ?thesis
    using a up g f by simp
qed

text \<open>
  The claim as first stated has the translation applied to each predicate's operator
  before the query builder gets it, and names \<^verbatim>\<open>CRUDS.Search\<close> among its places. There
  the token \<open>EQ\<close> reaches the backend as it is, not as \<open>==\<close>.
\<close>

theorem cruds_Search_operator_untranslated:
  "fst (snd (cruds_Search (plain (scripted None (None, None) None ([], None)))
              [Query ''age'' ''EQ'' (Val 30)] 0))
     = [CallGetAll ''users'' [Where ''age'' ''EQ'' (Val 30)]]
   \<and> fst (snd (cruds_Search (plain (scripted None (None, None) None ([], None)))
              [Query ''age'' ''EQ'' (Val 30)] 0))
     \<noteq> [CallGetAll ''users'' [Where ''age'' (fro (\<lambda>x. x) ''EQ'') (Val 30)]]"
proof -
  have f: "fro (\<lambda>x. x) ''EQ'' = ''==''"
    by code_simp
  show ?thesis
    unfolding f by (simp add: cruds_Search_def fixture_defs collection_Where_def)
qed

subsection \<open>Read\<close>

text \<open>
  Claim C3, as amended: when the backend's Get succeeds with a snapshot and the
  deserialization of that snapshot fails, the rich variant's Read returns the zero
  Document with a Corrupt error whose cause carries the text of the deserialization
  error; the plain variant's Read returns the zero Document with the deserialization
  error itself, as the client produced it.
\<close>

theorem Read_deserialization_failure:
  "(doc_Get (dao_c d) (dao_path d) docid s = ((Some sn, None), t)
      \<and> DataTo (dao_c d) sn = Inl e
    \<longrightarrow> dao_Read d docid s =
          (Return (dao_empty d,
             Some (Wrap (''(firestore serialization failed: '' @ Error e @ '')'') ErrCorrupt)),
           [CallGet (dao_path d) docid], t))
   \<and> (doc_Get (cruds_c c) (cruds_path c) docid' s' = ((Some sn', None), t')
      \<and> DataTo (cruds_c c) sn' = Inl e'
    \<longrightarrow> cruds_Read c docid' s' =
          (Return (cruds_empty c, Some (Backend e')), [CallGet (cruds_path c) docid'], t'))"
  by (simp add: dao_Read_def cruds_Read_def)

theorem Read_deserialization_failure_witness:
  "doc_Get (dao_c (rich (scripted None (Some (stored ''corrupt''), None) None ([], None))))
       (dao_path (rich (scripted None (Some (stored ''corrupt''), None) None ([], None)))) ''k'' 7
     = ((Some (stored ''corrupt''), None), 8)
   \<and> DataTo (dao_c (rich (scripted None (Some (stored ''corrupt''), None) None ([], None))))
       (stored ''corrupt'') = Inl \<lparr>status_Code = Unknown, Error = ''cannot decode''\<rparr>
   \<and> dao_Read (rich (scripted None (Some (stored ''corrupt''), None) None ([], None))) ''k'' 7
     = (Return ('''', Some (Wrap ''(firestore serialization failed: cannot decode)'' ErrCorrupt)),
        [CallGet ''users'' ''k''], 8)
   \<and> doc_Get (cruds_c (plain (scripted None (Some (stored ''corrupt''), None) None ([], None))))
       (cruds_path (plain (scripted None (Some (stored ''corrupt''), None) None ([], None)))) ''k'' 7
     = ((Some (stored ''corrupt''), None), 8)
   \<and> DataTo (cruds_c (plain (scripted None (Some (stored ''corrupt''), None) None ([], None))))
       (stored ''corrupt'') = Inl \<lparr>status_Code = Unknown, Error = ''cannot decode''\<rparr>
   \<and> cruds_Read (plain (scripted None (Some (stored ''corrupt''), None) None ([], None))) ''k'' 7
     = (Return ('''', Some (Backend \<lparr>status_Code = Unknown, Error = ''cannot decode''\<rparr>)),
        [CallGet ''users'' ''k''], 8)"
  using Read_deserialization_failure
    [where d = "rich (scripted None (Some (stored ''corrupt''), None) None ([], None))"
       and c = "plain (scripted None (Some (stored ''corrupt''), None) None ([], None))"
       and docid = "''k''" and docid' = "''k''" and s = 7 and s' = 7 and t = 8 and t' = 8
       and sn = "stored ''corrupt''" and sn' = "stored ''corrupt''"
       and e = "\<lparr>status_Code = Unknown, Error = ''cannot decode''\<rparr>"
       and e' = "\<lparr>status_Code = Unknown, Error = ''cannot decode''\<rparr>"]
  by (simp add: fixture_defs)

text \<open>
  The claim as first stated gives the Corrupt kind to both variants. The plain package
  has no Corrupt sentinel: on a stored payload that does not deserialize,
  \<^verbatim>\<open>CRUDS.Read\<close> returns the client's own error, which carries no normalized kind.
\<close>

theorem cruds_Read_not_Corrupt:
  "fst (cruds_Read (plain (scripted None (Some (stored ''corrupt''), None) None ([], None))) ''k'' 7)
     = Return ('''', Some (Backend \<lparr>status_Code = Unknown, Error = ''cannot decode''\<rparr>))
   \<and> kind_of (Backend \<lparr>status_Code = Unknown, Error = ''cannot decode''\<rparr>) \<noteq> Some ErrCorrupt"
  by (simp add: cruds_Read_def fixture_defs)

text \<open>
  Claim C8: a Read at a key where no document exists returns the zero Document with the
  NotFound error, which in the rich variant carries the identity key in its cause. The
  backend reports such a key by an error together with a snapshot whose existence flag
  is false.
\<close>

theorem Read_missing_document:
  "(doc_Get (dao_c d) (dao_path d) docid s = ((Some sn, Some e), t) \<and> \<not> Exists sn
    \<longrightarrow> dao_Read d docid s =
          (Return (dao_empty d, Some (Wrap (''(ID: '' @ docid @ '')'') ErrNotFound)),
           [CallGet (dao_path d) docid], t))
   \<and> (doc_Get (cruds_c c) (cruds_path c) docid' s' = ((Some sn', Some e'), t') \<and> \<not> Exists sn'
    \<longrightarrow> cruds_Read c docid' s' =
          (Return (cruds_empty c, Some ErrDocumentNotFound), [CallGet (cruds_path c) docid'], t'))"
  by (simp add: dao_Read_def cruds_Read_def)

theorem Read_missing_document_witness:
  "doc_Get (dao_c (rich (scripted None (Some missing, Some (failure NotFound)) None ([], None))))
       (dao_path (rich (scripted None (Some missing, Some (failure NotFound)) None ([], None)))) ''k'' 7
     = ((Some missing, Some (failure NotFound)), 8)
   \<and> \<not> Exists missing
   \<and> dao_Read (rich (scripted None (Some missing, Some (failure NotFound)) None ([], None))) ''k'' 7
     = (Return ('''', Some (Wrap ''(ID: k)'' ErrNotFound)), [CallGet ''users'' ''k''], 8)
   \<and> doc_Get (cruds_c (plain (scripted None (Some missing, Some (failure NotFound)) None ([], None))))
       (cruds_path (plain (scripted None (Some missing, Some (failure NotFound)) None ([], None)))) ''k'' 7
     = ((Some missing, Some (failure NotFound)), 8)
   \<and> cruds_Read (plain (scripted None (Some missing, Some (failure NotFound)) None ([], None))) ''k'' 7
     = (Return ('''', Some ErrDocumentNotFound), [CallGet ''users'' ''k''], 8)"
  using Read_missing_document
    [where d = "rich (scripted None (Some missing, Some (failure NotFound)) None ([], None))"
       and c = "plain (scripted None (Some missing, Some (failure NotFound)) None ([], None))"
       and docid = "''k''" and docid' = "''k''" and s = 7 and s' = 7 and t = 8 and t' = 8
       and sn = missing and sn' = missing
       and e = "failure NotFound" and e' = "failure NotFound"]
  by (simp add: fixture_defs)

text \<open>
  Claim C10: when the backend's Get returns an error, Read asks the returned snapshot
  for its existence flag first. In both variants the call panics on a nil snapshot and
  only then, so the branch is safe exactly when the backend returns a snapshot with
  the error; and with a snapshot the result is NotFound when the flag is false and the
  backend's error otherwise, whatever the status code of that error.
\<close>

theorem Read_error_branch:
  "(doc_Get (dao_c d) (dao_path d) docid s = ((snapshot, Some e), t)
    \<longrightarrow> (fst (dao_Read d docid s) = Panic \<longleftrightarrow> snapshot = None)
        \<and> (\<forall>sn. snapshot = Some sn
             \<longrightarrow> fst (dao_Read d docid s) =
                   Return (dao_empty d,
                     Some (if \<not> Exists sn then Wrap (''(ID: '' @ docid @ '')'') ErrNotFound
                           else Backend e))))
   \<and> (doc_Get (cruds_c c) (cruds_path c) docid' s' = ((snapshot', Some e'), t')
    \<longrightarrow> (fst (cruds_Read c docid' s') = Panic \<longleftrightarrow> snapshot' = None)
        \<and> (\<forall>sn. snapshot' = Some sn
             \<longrightarrow> fst (cruds_Read c docid' s') =
                   Return (cruds_empty c,
                     Some (if \<not> Exists sn then ErrDocumentNotFound else Backend e'))))"
  by (auto simp: dao_Read_def cruds_Read_def split: option.splits)

theorem Read_error_branch_witness:
  "doc_Get (dao_c (rich (scripted None (None, Some (failure Unavailable)) None ([], None))))
       (dao_path (rich (scripted None (None, Some (failure Unavailable)) None ([], None)))) ''k'' 7
     = ((None, Some (failure Unavailable)), 8)
   \<and> fst (dao_Read (rich (scripted None (None, Some (failure Unavailable)) None ([], None))) ''k'' 7)
     = Panic
   \<and> doc_Get (cruds_c (plain (scripted None (Some (stored ''bob''), Some (failure NotFound)) None ([], None))))
       (cruds_path (plain (scripted None (Some (stored ''bob''), Some (failure NotFound)) None ([], None)))) ''k'' 7
     = ((Some (stored ''bob''), Some (failure NotFound)), 8)
   \<and> fst (cruds_Read (plain (scripted None (Some (stored ''bob''), Some (failure NotFound)) None ([], None))) ''k'' 7)
     = Return ('''', Some (Backend (failure NotFound)))
   \<and> doc_Get (dao_c (rich (scripted None (Some missing, Some (failure Unavailable)) None ([], None))))
       (dao_path (rich (scripted None (Some missing, Some (failure Unavailable)) None ([], None)))) ''k'' 7
     = ((Some missing, Some (failure Unavailable)), 8)
   \<and> fst (dao_Read (rich (scripted None (Some missing, Some (failure Unavailable)) None ([], None))) ''k'' 7)
     = Return ('''', Some (Wrap ''(ID: k)'' ErrNotFound))"
  using Read_error_branch
    [where d = "rich (scripted None (None, Some (failure Unavailable)) None ([], None))"
       and c = "plain (scripted None (Some (stored ''bob''), Some (failure NotFound)) None ([], None))"
       and docid = "''k''" and docid' = "''k''" and s = 7 and s' = 7 and t = 8 and t' = 8
       and snapshot = None and snapshot' = "Some (stored ''bob'')"
       and e = "failure Unavailable" and e' = "failure NotFound"]
    Read_error_branch
    [where d = "rich (scripted None (Some missing, Some (failure Unavailable)) None ([], None))"
       and c = "plain (scripted None (Some (stored ''bob''), Some (failure NotFound)) None ([], None))"
       and docid = "''k''" and docid' = "''k''" and s = 7 and s' = 7 and t = 8 and t' = 8
       and snapshot = "Some missing" and snapshot' = "Some (stored ''bob'')"
       and e = "failure Unavailable" and e' = "failure NotFound"]
  by (simp add: fixture_defs)

subsection \<open>Create\<close>

text \<open>
  Claim C4: when the backend's create succeeds, the rich variant's Create issues two
  calls, the create of the document as the caller gave it and then one update of
  exactly two instructions, \<open>created\<close> and \<open>updated\<close>, both set to the time read at
  entry (before the create). The result of Create is the result of that update: if it
  fails, its error is returned, in the state where the create has already happened.
\<close>

theorem dao_Create_follow_up:
  assumes "doc_Create (dao_c d) (dao_path d) docid document s = (None, t)"
    and "now = time_Now (dao_c d) s"
    and "fus = [Update ''created'' (Time now), Update ''updated'' (Time now)]"
  shows "dao_Create d docid document s =
           (map_option Backend (fst (doc_Update (dao_c d) (dao_path d) docid fus t)),
            [CallCreate (dao_path d) docid document, CallUpdate (dao_path d) docid fus],
            snd (doc_Update (dao_c d) (dao_path d) docid fus t))"
  using assms by (simp add: dao_Create_def Let_def split: prod.splits option.splits)

theorem dao_Create_follow_up_witness:
  "doc_Create (dao_c (rich (scripted None (None, None) (Some (failure Unavailable)) ([], None))))
       (dao_path (rich (scripted None (None, None) (Some (failure Unavailable)) ([], None))))
       ''k'' ''doc'' 7 = (None, 8)
   \<and> time_Now (dao_c (rich (scripted None (None, None) (Some (failure Unavailable)) ([], None)))) 7 = 7
   \<and> dao_Create (rich (scripted None (None, None) (Some (failure Unavailable)) ([], None)))
        ''k'' ''doc'' 7
     = (Some (Backend (failure Unavailable)),
        [CallCreate ''users'' ''k'' ''doc'',
         CallUpdate ''users'' ''k'' [Update ''created'' (Time 7), Update ''updated'' (Time 7)]],
        9)"
proof -
  let ?d = "rich (scripted None (None, None) (Some (failure Unavailable)) ([], None))"
  have h: "doc_Create (dao_c ?d) (dao_path ?d) ''k'' ''doc'' 7 = (None, 8)"
    by (simp add: fixture_defs)
  have n: "(7::int) = time_Now (dao_c ?d) 7"
    by (simp add: fixture_defs)
  from dao_Create_follow_up[OF h n refl] h n show ?thesis
    by (simp add: fixture_defs)
qed

text \<open>
  Claim C7, as amended: when the backend's create fails with the status AlreadyExists,
  Create returns Conflict, in the rich variant with the identity key in the cause and
  in the plain variant as the fixed sentinel; any other error of the create is returned
  as the backend produced it. On a successful create the document handed to the
  backend's create is the caller's. In the plain variant that create is the only call,
  so the stored document is the caller's value. In the rich variant the follow-up
  update comes after it, so the stored document is the caller's value with its
  \<open>created\<close> and \<open>updated\<close> fields set to the entry time, added or overwritten. A
  Create at a key that holds a document leaves that document as it was.
\<close>

theorem Create_outcomes:
  "(doc_Create (dao_c d) (dao_path d) docid document s = (Some e, t)
    \<longrightarrow> dao_Create d docid document s =
          (Some (if status_Code e = AlreadyExists
                 then Wrap (''(document '' @ [CHR 0x27] @ docid @ [CHR 0x27] @ '' already exists)'')
                        ErrConflict
                 else Backend e),
           [CallCreate (dao_path d) docid document], t))
   \<and> (doc_Create (cruds_c c) (cruds_path c) docid' document' s' = (Some e', t')
    \<longrightarrow> cruds_Create c docid' document' s' =
          (Some (if status_Code e' = AlreadyExists then ErrDocumentAlreadyExists else Backend e'),
           [CallCreate (cruds_path c) docid' document'], t'))
   \<and> (doc_Create (cruds_c c) (cruds_path c) docid' document' s' = (None, t')
    \<longrightarrow> cruds_Create c docid' document' s' =
          (None, [CallCreate (cruds_path c) docid' document'], t'))
   \<and> (doc_Create (dao_c d) (dao_path d) docid document s = (None, t)
    \<longrightarrow> dao_Create d docid document s =
          (map_option Backend
             (fst (doc_Update (dao_c d) (dao_path d) docid
                     [Update ''created'' (Time (time_Now (dao_c d) s)),
                      Update ''updated'' (Time (time_Now (dao_c d) s))] t)),
           [CallCreate (dao_path d) docid document,
            CallUpdate (dao_path d) docid
              [Update ''created'' (Time (time_Now (dao_c d) s)),
               Update ''updated'' (Time (time_Now (dao_c d) s))]],
           snd (doc_Update (dao_c d) (dao_path d) docid
                  [Update ''created'' (Time (time_Now (dao_c d) s)),
                   Update ''updated'' (Time (time_Now (dao_c d) s))] t)))
   \<and> (st_docs w (p, k) = None
    \<longrightarrow> fst (cruds_Create (plain_on p) k fs w) = None
        \<and> st_docs (snd (snd (cruds_Create (plain_on p) k fs w))) (p, k) = Some fs
        \<and> fst (dao_Create (rich_on p) k fs w) = None
        \<and> st_docs (snd (snd (dao_Create (rich_on p) k fs w))) (p, k) =
            Some (set_field ''updated'' (Time (st_clock w))
                    (set_field ''created'' (Time (st_clock w)) fs)))
   \<and> (st_docs w (p, k) = Some old
    \<longrightarrow> st_docs (snd (snd (cruds_Create (plain_on p) k fs w))) (p, k) = Some old
        \<and> st_docs (snd (snd (dao_Create (rich_on p) k fs w))) (p, k) = Some old)"
proof -
  have a: "doc_Create (dao_c d) (dao_path d) docid document s = (Some e, t)
    \<longrightarrow> dao_Create d docid document s =
          (Some (if status_Code e = AlreadyExists
                 then Wrap (''(document '' @ [CHR 0x27] @ docid @ [CHR 0x27] @ '' already exists)'')
                        ErrConflict
                 else Backend e),
           [CallCreate (dao_path d) docid document], t)"
    by (simp add: dao_Create_def Let_def)
  have b: "doc_Create (cruds_c c) (cruds_path c) docid' document' s' = (Some e', t')
    \<longrightarrow> cruds_Create c docid' document' s' =
          (Some (if status_Code e' = AlreadyExists then ErrDocumentAlreadyExists else Backend e'),
           [CallCreate (cruds_path c) docid' document'], t')"
    by (simp add: cruds_Create_def)
  have c: "doc_Create (cruds_c c) (cruds_path c) docid' document' s' = (None, t')
    \<longrightarrow> cruds_Create c docid' document' s' =
          (None, [CallCreate (cruds_path c) docid' document'], t')"
    by (simp add: cruds_Create_def)
  have d: "doc_Create (dao_c d) (dao_path d) docid document s = (None, t)
    \<longrightarrow> dao_Create d docid document s =
          (map_option Backend
             (fst (doc_Update (dao_c d) (dao_path d) docid
                     [Update ''created'' (Time (time_Now (dao_c d) s)),
                      Update ''updated'' (Time (time_Now (dao_c d) s))] t)),
           [CallCreate (dao_path d) docid document,
            CallUpdate (dao_path d) docid
              [Update ''created'' (Time (time_Now (dao_c d) s)),
               Update ''updated'' (Time (time_Now (dao_c d) s))]],
           snd (doc_Update (dao_c d) (dao_path d) docid
                  [Update ''created'' (Time (time_Now (dao_c d) s)),
                   Update ''updated'' (Time (time_Now (dao_c d) s))] t))"
    by (simp add: dao_Create_def Let_def split: prod.splits option.splits)
  have e: "st_docs w (p, k) = None
    \<longrightarrow> fst (cruds_Create (plain_on p) k fs w) = None
        \<and> st_docs (snd (snd (cruds_Create (plain_on p) k fs w))) (p, k) = Some fs
        \<and> fst (dao_Create (rich_on p) k fs w) = None
        \<and> st_docs (snd (snd (dao_Create (rich_on p) k fs w))) (p, k) =
            Some (set_field ''updated'' (Time (st_clock w))
                    (set_field ''created'' (Time (st_clock w)) fs))"
    by (simp add: cruds_Create_def dao_Create_def Let_def store_defs)
  have f: "st_docs w (p, k) = Some old
    \<longrightarrow> st_docs (snd (snd (cruds_Create (plain_on p) k fs w))) (p, k) = Some old
        \<and> st_docs (snd (snd (dao_Create (rich_on p) k fs w))) (p, k) = Some old"
    by (simp add: cruds_Create_def dao_Create_def Let_def store_defs)
  from a b c d e f show ?thesis
    by blast
qed

theorem Create_outcomes_witness:
  "doc_Create (dao_c (rich (scripted (Some (failure AlreadyExists)) (None, None) None ([], None))))
       (dao_path (rich (scripted (Some (failure AlreadyExists)) (None, None) None ([], None))))
       ''k'' ''doc'' 7 = (Some (failure AlreadyExists), 8)
   \<and> dao_Create (rich (scripted (Some (failure AlreadyExists)) (None, None) None ([], None)))
        ''k'' ''doc'' 7
     = (Some (Wrap (''(document '' @ [CHR 0x27] @ ''k'' @ [CHR 0x27] @ '' already exists)'') ErrConflict),
        [CallCreate ''users'' ''k'' ''doc''], 8)
   \<and> doc_Create (cruds_c (plain (scripted (Some (failure Unavailable)) (None, None) None ([], None))))
       (cruds_path (plain (scripted (Some (failure Unavailable)) (None, None) None ([], None))))
       ''k'' ''doc'' 7 = (Some (failure Unavailable), 8)
   \<and> cruds_Create (plain (scripted (Some (failure Unavailable)) (None, None) None ([], None)))
        ''k'' ''doc'' 7
     = (Some (Backend (failure Unavailable)), [CallCreate ''users'' ''k'' ''doc''], 8)
   \<and> doc_Create (cruds_c (plain (scripted (Some (failure AlreadyExists)) (None, None) None ([], None))))
       (cruds_path (plain (scripted (Some (failure AlreadyExists)) (None, None) None ([], None))))
       ''k'' ''doc'' 7 = (Some (failure AlreadyExists), 8)
   \<and> cruds_Create (plain (scripted (Some (failure AlreadyExists)) (None, None) None ([], None)))
        ''k'' ''doc'' 7
     = (Some ErrDocumentAlreadyExists, [CallCreate ''users'' ''k'' ''doc''], 8)
   \<and> doc_Create (cruds_c (plain (scripted None (None, None) None ([], None))))
       (cruds_path (plain (scripted None (None, None) None ([], None))))
       ''k'' ''doc'' 7 = (None, 8)
   \<and> cruds_Create (plain (scripted None (None, None) None ([], None))) ''k'' ''doc'' 7
     = (None, [CallCreate ''users'' ''k'' ''doc''], 8)
   \<and> doc_Create (dao_c (rich (scripted None (None, None) None ([], None))))
       (dao_path (rich (scripted None (None, None) None ([], None))))
       ''k'' ''doc'' 7 = (None, 8)
   \<and> dao_Create (rich (scripted None (None, None) None ([], None))) ''k'' ''doc'' 7
     = (None,
        [CallCreate ''users'' ''k'' ''doc'',
         CallUpdate ''users'' ''k'' [Update ''created'' (Time 7), Update ''updated'' (Time 7)]],
        9)
   \<and> st_docs (empty_store 7 :: nat store_state) (''users'', ''k'') = None
   \<and> st_docs (snd (snd (cruds_Create (plain_on ''users'') ''k'' [(''name'', Val (1::nat))]
                          (empty_store 7)))) (''users'', ''k'')
     = Some [(''name'', Val 1)]
   \<and> st_docs (snd (snd (dao_Create (rich_on ''users'') ''k'' [(''name'', Val (1::nat))]
                          (empty_store 7)))) (''users'', ''k'')
     = Some [(''name'', Val 1), (''created'', Time 7), (''updated'', Time 7)]
   \<and> st_docs (snd (snd (dao_Create (rich_on ''users'') ''k'' [(''name'', Val (2::nat))]
                          (snd (snd (cruds_Create (plain_on ''users'') ''k'' [(''name'', Val 1)]
                                       (empty_store 7))))))) (''users'', ''k'')
     = Some [(''name'', Val 1)]"
proof -
  note A = Create_outcomes [THEN conjunct1]
  note B = Create_outcomes [THEN conjunct2, THEN conjunct1]
  note C = Create_outcomes [THEN conjunct2, THEN conjunct2, THEN conjunct1]
  note D = Create_outcomes [THEN conjunct2, THEN conjunct2, THEN conjunct2, THEN conjunct1]
  note E = Create_outcomes
    [THEN conjunct2, THEN conjunct2, THEN conjunct2, THEN conjunct2, THEN conjunct1]
  note F = Create_outcomes
    [THEN conjunct2, THEN conjunct2, THEN conjunct2, THEN conjunct2, THEN conjunct2]
  have a: "doc_Create (dao_c (rich (scripted (Some (failure AlreadyExists)) (None, None) None ([], None))))
       (dao_path (rich (scripted (Some (failure AlreadyExists)) (None, None) None ([], None))))
       ''k'' ''doc'' 7 = (Some (failure AlreadyExists), 8)"
    by (simp add: fixture_defs)
  have b1: "doc_Create (cruds_c (plain (scripted (Some (failure Unavailable)) (None, None) None ([], None))))
       (cruds_path (plain (scripted (Some (failure Unavailable)) (None, None) None ([], None))))
       ''k'' ''doc'' 7 = (Some (failure Unavailable), 8)"
    by (simp add: fixture_defs)
  have b2: "doc_Create (cruds_c (plain (scripted (Some (failure AlreadyExists)) (None, None) None ([], None))))
       (cruds_path (plain (scripted (Some (failure AlreadyExists)) (None, None) None ([], None))))
       ''k'' ''doc'' 7 = (Some (failure AlreadyExists), 8)"
    by (simp add: fixture_defs)
  have c: "doc_Create (cruds_c (plain (scripted None (None, None) None ([], None))))
       (cruds_path (plain (scripted None (None, None) None ([], None))))
       ''k'' ''doc'' 7 = (None, 8)"
    by (simp add: fixture_defs)
  have d: "doc_Create (dao_c (rich (scripted None (None, None) None ([], None))))
       (dao_path (rich (scripted None (None, None) None ([], None))))
       ''k'' ''doc'' 7 = (None, 8)"
    by (simp add: fixture_defs)
  have h: "st_docs (empty_store 7 :: nat store_state) (''users'', ''k'') = None"
    by (simp add: empty_store_def)
  have ra: "dao_Create (rich (scripted (Some (failure AlreadyExists)) (None, None) None ([], None)))
        ''k'' ''doc'' 7
     = (Some (Wrap (''(document '' @ [CHR 0x27] @ ''k'' @ [CHR 0x27] @ '' already exists)'') ErrConflict),
        [CallCreate ''users'' ''k'' ''doc''], 8)"
    using A [THEN mp, OF a] by (simp add: fixture_defs)
  have rb1: "cruds_Create (plain (scripted (Some (failure Unavailable)) (None, None) None ([], None)))
        ''k'' ''doc'' 7
     = (Some (Backend (failure Unavailable)), [CallCreate ''users'' ''k'' ''doc''], 8)"
    using B [THEN mp, OF b1] by (simp add: fixture_defs)
  have rb2: "cruds_Create (plain (scripted (Some (failure AlreadyExists)) (None, None) None ([], None)))
        ''k'' ''doc'' 7
     = (Some ErrDocumentAlreadyExists, [CallCreate ''users'' ''k'' ''doc''], 8)"
    using B [THEN mp, OF b2] by (simp add: fixture_defs)
  have rc: "cruds_Create (plain (scripted None (None, None) None ([], None))) ''k'' ''doc'' 7
     = (None, [CallCreate ''users'' ''k'' ''doc''], 8)"
    using C [THEN mp, OF c] by (simp add: fixture_defs)
  have rd: "dao_Create (rich (scripted None (None, None) None ([], None))) ''k'' ''doc'' 7
     = (None,
        [CallCreate ''users'' ''k'' ''doc'',
         CallUpdate ''users'' ''k'' [Update ''created'' (Time 7), Update ''updated'' (Time 7)]],
        9)"
    using D [THEN mp, OF d] by (simp add: fixture_defs)
  have first: "st_docs (snd (snd (cruds_Create (plain_on ''users'') ''k'' [(''name'', Val (1::nat))]
                          (empty_store 7)))) (''users'', ''k'')
     = Some [(''name'', Val 1)]"
    using E [THEN mp, OF h] by simp
  have stamped: "st_docs (snd (snd (dao_Create (rich_on ''users'') ''k'' [(''name'', Val (1::nat))]
                          (empty_store 7)))) (''users'', ''k'')
     = Some [(''name'', Val 1), (''created'', Time 7), (''updated'', Time 7)]"
    using E [THEN mp, OF h] by (simp add: empty_store_def)
  have second: "st_docs (snd (snd (dao_Create (rich_on ''users'') ''k'' [(''name'', Val (2::nat))]
                          (snd (snd (cruds_Create (plain_on ''users'') ''k'' [(''name'', Val 1)]
                                       (empty_store 7))))))) (''users'', ''k'')
     = Some [(''name'', Val 1)]"
    using F [THEN mp, OF first] by simp
  from a ra b1 rb1 b2 rb2 c rc d rd h first stamped second show ?thesis
    by (simp only: simp_thms)
qed

text \<open>
  The claim as first stated has the stored document equal to the caller's value after
  every successful create. After the rich variant's Create the store holds the caller's
  fields and the two timestamps, and a \<open>created\<close> field of the caller's own is
  overwritten.
\<close>

theorem dao_Create_stored_document_stamped:
  "fst (dao_Create (rich_on ''users'') ''k'' [(''name'', Val (1::nat))] (empty_store 7)) = None
   \<and> st_docs (snd (snd (dao_Create (rich_on ''users'') ''k'' [(''name'', Val (1::nat))]
                          (empty_store 7)))) (''users'', ''k'')
     = Some [(''name'', Val 1), (''created'', Time 7), (''updated'', Time 7)]
   \<and> st_docs (snd (snd (dao_Create (rich_on ''users'') ''k'' [(''name'', Val (1::nat))]
                          (empty_store 7)))) (''users'', ''k'')
     \<noteq> Some [(''name'', Val 1)]
   \<and> st_docs (snd (snd (dao_Create (rich_on ''users'') ''k''
                          [(''created'', Val (5::nat)), (''name'', Val 1)]
                          (empty_store 7)))) (''users'', ''k'')
     = Some [(''created'', Time 7), (''name'', Val 1), (''updated'', Time 7)]
   \<and> st_docs (snd (snd (dao_Create (rich_on ''users'') ''k''
                          [(''created'', Val (5::nat)), (''name'', Val 1)]
                          (empty_store 7)))) (''users'', ''k'')
     \<noteq> Some [(''created'', Val 5), (''name'', Val 1)]"
  by (simp add: dao_Create_def Let_def store_def rich_on_def tick_def empty_store_def)

subsection \<open>Update\<close>

lemma count_list_translated:
  "distinct (map fst update) \<Longrightarrow> map_of update k = Some v \<Longrightarrow>
     count_list (map (\<lambda>(k, v). Update k v) update) (Update k v) = 1"
proof (induction update)
  case Nil
  then show ?case by simp
next
  case (Cons p update)
  obtain k' v' where p: "p = (k', v')"
    by (cases p)
  show ?case
  proof (cases "k' = k")
    case True
    with Cons.prems p have v: "v' = v" and fresh: "k \<notin> fst ` set update"
      by auto
    have "count_list (map (\<lambda>(k, v). Update k v) update) (Update k v) = 0"
      using fresh by (force simp: count_list_0_iff)
    with True v p show ?thesis
      by simp
  next
    case False
    with Cons p show ?thesis
      by simp
  qed
qed

text \<open>
  Claim C5: the rich variant's Update, on a mapping enumerated with every key once,
  issues exactly one backend update call. Its instruction list is the translation of the
  mapping, holding each (field path, value) pair of the mapping exactly once and nothing
  else, followed by one instruction that sets \<open>updated\<close> to the current time. For the
  empty mapping the list is that one instruction, and Update succeeds whenever the
  backend's update does.
\<close>

theorem dao_Update_instructions:
  assumes "distinct (map fst update)"
    and "fus = fromUpdate update []"
    and "now = time_Now (dao_c d) s"
    and "r = doc_Update (dao_c d) (dao_path d) docid (fus @ [Update ''updated'' (Time now)]) s"
  shows "dao_Update d docid update s =
           (map_option Backend (fst r),
            [CallUpdate (dao_path d) docid (fus @ [Update ''updated'' (Time now)])], snd r)
         \<and> (\<forall>k v. map_of update k = Some v \<longrightarrow> count_list fus (Update k v) = 1)
         \<and> (\<forall>u \<in> set fus. map_of update (upd_Path u) = Some (upd_Value u))
         \<and> length fus = card (dom (map_of update))
         \<and> (update = [] \<longrightarrow> fus @ [Update ''updated'' (Time now)] = [Update ''updated'' (Time now)])
         \<and> (fst r = None \<longrightarrow> fst (dao_Update d docid update s) = None)"
proof -
  have fus: "fus = map (\<lambda>(k, v). Update k v) update"
    using assms(2) by (simp add: fromUpdate_eq)
  have run: "dao_Update d docid update s =
           (map_option Backend (fst r),
            [CallUpdate (dao_path d) docid (fus @ [Update ''updated'' (Time now)])], snd r)"
    using assms(2,3,4) by (simp add: dao_Update_def Let_def split: prod.splits option.splits)
  have one: "\<forall>k v. map_of update k = Some v \<longrightarrow> count_list fus (Update k v) = 1"
    using count_list_translated[OF assms(1)] fus by simp
  have only: "\<forall>u \<in> set fus. map_of update (upd_Path u) = Some (upd_Value u)"
    using assms(1) fus by auto
  have len: "length fus = card (dom (map_of update))"
    using distinct_card[OF assms(1)] fus by (simp add: dom_map_of_conv_image_fst)
  have empty: "update = [] \<longrightarrow> fus @ [Update ''updated'' (Time now)] = [Update ''updated'' (Time now)]"
    using fus by simp
  have ok: "fst r = None \<longrightarrow> fst (dao_Update d docid update s) = None"
    using run by simp
  from run one only len empty ok show ?thesis
    by blast
qed

theorem dao_Update_instructions_witness:
  "distinct (map fst [(''name'', Val (1::nat)), (''age'', Val 2)])
   \<and> dao_Update (rich (scripted None (None, None) None ([], None))) ''k''
        [(''name'', Val 1), (''age'', Val 2)] 7
     = (None,
        [CallUpdate ''users'' ''k''
           [Update ''name'' (Val 1), Update ''age'' (Val 2), Update ''updated'' (Time 7)]], 8)
   \<and> distinct (map fst ([] :: (string \<times> nat any) list))
   \<and> dao_Update (rich (scripted None (None, None) None ([], None))) ''k'' [] 7
     = (None, [CallUpdate ''users'' ''k'' [Update ''updated'' (Time 7)]], 8)"
proof -
  let ?d = "rich (scripted None (None, None) None ([], None))"
  have h: "distinct (map fst [(''name'', Val (1::nat)), (''age'', Val 2)])"
    by simp
  have h0: "distinct (map fst ([] :: (string \<times> nat any) list))"
    by simp
  from dao_Update_instructions[OF h refl refl refl, where d = ?d and s = 7 and docid = "''k''"]
    dao_Update_instructions[OF h0 refl refl refl, where d = ?d and s = 7 and docid = "''k''"] h h0
  show ?thesis
    by (simp add: fixture_defs)
qed

text \<open>
  Claim C9: in both variants the error of Update is the error of the backend's update,
  as the backend produced it, also when that is a not-found error; Update never returns
  the NotFound kind.
\<close>

theorem Update_passthrough:
  "fst (dao_Update d docid update s) =
     map_option Backend
       (fst (doc_Update (dao_c d) (dao_path d) docid
               (fromUpdate update [] @ [Update ''updated'' (Time (time_Now (dao_c d) s))]) s))
   \<and> fst (cruds_Update c docid' updates s') =
     map_option Backend (fst (doc_Update (cruds_c c) (cruds_path c) docid' updates s'))
   \<and> fst (dao_Update d docid update s) \<noteq> Some (Wrap cause ErrNotFound)
   \<and> fst (cruds_Update c docid' updates s') \<noteq> Some ErrDocumentNotFound
   \<and> map_option kind_of (fst (dao_Update d docid update s)) \<noteq> Some (Some ErrNotFound)
   \<and> map_option kind_of (fst (cruds_Update c docid' updates s')) \<noteq> Some (Some ErrNotFound)"
  by (auto simp: dao_Update_def cruds_Update_def Let_def ErrDocumentNotFound_def
      split: prod.splits option.splits)

theorem Update_passthrough_witness:
  "dao_Update (rich (scripted None (None, None) (Some (failure NotFound)) ([], None))) ''k'' [] 7
     = (Some (Backend (failure NotFound)),
        [CallUpdate ''users'' ''k'' [Update ''updated'' (Time 7)]], 8)
   \<and> cruds_Update (plain (scripted None (None, None) (Some (failure NotFound)) ([], None))) ''k''
        [Update ''age'' (Val 2)] 7
     = (Some (Backend (failure NotFound)), [CallUpdate ''users'' ''k'' [Update ''age'' (Val 2)]], 8)"
  using Update_passthrough
    [where d = "rich (scripted None (None, None) (Some (failure NotFound)) ([], None))"
       and c = "plain (scripted None (None, None) (Some (failure NotFound)) ([], None))"
       and docid = "''k''" and docid' = "''k''" and update = "[]"
       and updates = "[Update ''age'' (Val 2)]" and s = 7 and s' = 7 and cause = "''''"]
  by (simp add: fixture_defs dao_Update_def cruds_Update_def)

subsection \<open>Search\<close>

text \<open>
  Claim C6: when a Search with a non-empty predicate list has its query rejected by the
  backend with the status FailedPrecondition, it returns no documents and the BadRequest
  error (the rich variant, which logs nothing) or the query-not-supported sentinel (the
  plain variant); with any other status the backend's error is returned as it is, again
  with no documents.
\<close>

theorem Search_rejected_query:
  "(queries \<noteq> []
      \<and> query_GetAll (dao_c d) (dao_path d) (dao_build um 0 queries []) s = ((snaps, Some e), t)
    \<longrightarrow> fst (dao_Search um d queries s) =
          ([], Some (if status_Code e = FailedPrecondition
                     then Wrap (''(query not supported: combining '' @ [CHR 0x27] @ ''==''
                                  @ [CHR 0x27] @ '' with '' @ [CHR 0x27] @ ''!= <, <=, >, >=''
                                  @ [CHR 0x27] @ '')'') ErrBadRequest
                     else Backend e))
        \<and> fst (snd (dao_Search um d queries s)) = [])
   \<and> (cq \<noteq> []
      \<and> query_GetAll (cruds_c c) (cruds_path c) (cruds_build 0 cq []) s' = ((snaps', Some e'), t')
    \<longrightarrow> fst (cruds_Search c cq s') =
          ([], Some (if status_Code e' = FailedPrecondition then ErrQueryNotSupported
                     else Backend e')))"
  by (simp add: dao_Search_def cruds_Search_def)

theorem Search_rejected_query_witness:
  "[t_Query ''age'' ''eq'' (Val (3::nat)), t_Query ''age'' ''gt'' (Val 1)] \<noteq> []
   \<and> fst (dao_Search (\<lambda>x. x)
        (rich (scripted None (None, None) None ([stored ''alice''], Some (failure FailedPrecondition))))
        [t_Query ''age'' ''eq'' (Val 3), t_Query ''age'' ''gt'' (Val 1)] 0)
     = ([], Some (Wrap (''(query not supported: combining '' @ [CHR 0x27] @ ''==''
                                  @ [CHR 0x27] @ '' with '' @ [CHR 0x27] @ ''!= <, <=, >, >=''
                                  @ [CHR 0x27] @ '')'') ErrBadRequest))
   \<and> [Query ''age'' ''=='' (Val (3::nat)), Query ''age'' ''>'' (Val 1)] \<noteq> []
   \<and> fst (cruds_Search
        (plain (scripted None (None, None) None ([stored ''alice''], Some (failure FailedPrecondition))))
        [Query ''age'' ''=='' (Val 3), Query ''age'' ''>'' (Val 1)] 0)
     = ([], Some ErrQueryNotSupported)
   \<and> fst (cruds_Search
        (plain (scripted None (None, None) None ([stored ''alice''], Some (failure Unavailable))))
        [Query ''age'' ''=='' (Val 3), Query ''age'' ''>'' (Val 1)] 0)
     = ([], Some (Backend (failure Unavailable)))"
  using Search_rejected_query
    [where d = "rich (scripted None (None, None) None ([stored ''alice''], Some (failure FailedPrecondition)))"
       and c = "plain (scripted None (None, None) None ([stored ''alice''], Some (failure FailedPrecondition)))"
       and um = "\<lambda>x. x" and queries = "[t_Query ''age'' ''eq'' (Val 3), t_Query ''age'' ''gt'' (Val 1)]"
       and cq = "[Query ''age'' ''=='' (Val 3), Query ''age'' ''>'' (Val 1)]"
       and s = 0 and s' = 0 and t = 1 and t' = 1
       and snaps = "[stored ''alice'']" and snaps' = "[stored ''alice'']"
       and e = "failure FailedPrecondition" and e' = "failure FailedPrecondition"]
    Search_rejected_query
    [where d = "rich (scripted None (None, None) None ([stored ''alice''], Some (failure FailedPrecondition)))"
       and c = "plain (scripted None (None, None) None ([stored ''alice''], Some (failure Unavailable)))"
       and um = "\<lambda>x. x" and queries = "[t_Query ''age'' ''eq'' (Val 3), t_Query ''age'' ''gt'' (Val 1)]"
       and cq = "[Query ''age'' ''=='' (Val 3), Query ''age'' ''>'' (Val 1)]"
       and s = 0 and s' = 0 and t = 1 and t' = 1
       and snaps = "[stored ''alice'']" and snaps' = "[stored ''alice'']"
       and e = "failure FailedPrecondition" and e' = "failure Unavailable"]
  by (simp add: fixture_defs)


end
